theory Spec2Isabelle
  imports Complex_Main "HOL-Library.Sublist"
begin

section \<open>The browser boundary\<close>

text \<open>
  The client is a set of React components written in TypeScript. Every \<open>await\<close> of the
  source either resolves with a value or rejects with a thrown value; the thrown value is
  an \<open>Error\<close> carrying a message, or some other value without a \<open>message\<close> property.
\<close>

datatype thrown = Error string | NonError

datatype 'a promise = Resolves 'a | Rejects thrown

text \<open>JavaScript renders a status code in a template literal as its decimal digits.\<close>

fun string_of_nat :: "nat \<Rightarrow> string" where
  "string_of_nat n =
     (if n < 10 then [char_of (48 + n)]
      else string_of_nat (n div 10) @ [char_of (48 + n mod 10)])"

text \<open>
  A parsed JSON body is \<open>null\<close> or an object; only string-valued fields are read by
  the client.
\<close>

datatype json = JNull | JObject "(string \<times> string) list"

text \<open>A browser \<open>File\<close>: its name, its size in bytes and its bytes.\<close>

record File =
  file_name :: string
  file_size :: nat
  file_bytes :: "nat list"

datatype form_value = FileField File | TextField string

record request =
  url :: string
  http_method :: string
  headers :: "(string \<times> string) list"
  body :: "(string \<times> form_value) list"

record response =
  status :: nat
  body_text :: "string promise"
  body_json :: "json promise"

text \<open>\<open>response.ok\<close> of the Fetch standard: the status is in the range 200 to 299.\<close>

definition ok :: "response \<Rightarrow> bool" where
  "ok r = (200 \<le> status r \<and> status r \<le> 299)"

text \<open>
  What a component reads from outside itself during one handler run:
  \<open>import.meta.env.VITE_BASE_URL\<close>, the outcome of Clerk's \<open>getToken()\<close> (a token,
  \<open>null\<close>, or a rejection) and the outcome of \<open>fetch\<close> for the request it issues.
\<close>

record env =
  base_url :: string
  getToken :: "string option promise"
  fetch :: "request \<Rightarrow> response promise"

text \<open>The template literal \<open>`Bearer ${token}`\<close>; a \<open>null\<close> token renders as \<open>null\<close>.\<close>

definition bearer :: "string option \<Rightarrow> string" where
  "bearer token = ''Bearer '' @ (case token of None \<Rightarrow> ''null'' | Some t \<Rightarrow> t)"

text \<open>
  What a handler does besides updating state, in the order it does it: the requests it
  issues, the toasts it shows, what it logs and the timers it starts.
\<close>

datatype timer = ClearDeleteSuccess | ClearDeleteError | SignOutAndRedirect

datatype toast_kind = ToastSuccess | ToastError | ToastLoading

datatype effect =
    Fetched request
  | ConsoleError string
  | SetTimeout timer nat
  | Toast toast_kind string "string option"

section \<open>AppContext\<close>

text \<open>
  The values the provider hands to the pages. JavaScript numbers are modelled as real
  numbers and their arithmetic as exact.
\<close>

record app_context =
  currentReadme :: "string option"
  dailyTokensUsed :: real
  tokenLimit :: real
  apiKey :: string

section \<open>SessionsPage\<close>

text \<open>
  The interface \<open>ReadmeData\<close>. Its fields \<open>id\<close> and \<open>model\<close> are written \<open>id'\<close> and
  \<open>model'\<close> here.
\<close>

record ReadmeData =
  id' :: string
  filename :: string
  created_at :: string
  prompt :: string
  model' :: string
  total_tokens :: nat
  content :: "string option"

text \<open>
  The component's \<open>useState\<close> cells; the record extends the application context, whose
  \<open>currentReadme\<close> the page writes through \<open>setCurrentReadme\<close>.
\<close>

record sessions_state = app_context +
  searchTerm :: string
  selectedSession :: "string option"
  isPreviousSelected :: bool
  readmeData :: "ReadmeData list"
  loading :: bool
  error :: "string option"
  deleteConfirmId :: "string option"
  deletingId :: "string option"
  deleteError :: "string option"
  deleteSuccess :: "string option"

text \<open>The request of \<open>handleDelete\<close>: \<open>DELETE ${VITE_BASE_URL}/delete/${id}\<close>.\<close>

definition delete_request :: "env \<Rightarrow> string option \<Rightarrow> string \<Rightarrow> request" where
  "delete_request e token i =
     \<lparr>url = base_url e @ ''/delete/'' @ i,
      http_method = ''DELETE'',
      headers = [(''Content-Type'', ''application/json''), (''Authorization'', bearer token)],
      body = []\<rparr>"

text \<open>The \<open>if (!response.ok)\<close> block of \<open>handleDelete\<close>: the message of the Error thrown.\<close>

definition delete_failure :: "response \<Rightarrow> string" where
  "delete_failure r =
     (if status r = 401 then ''Unauthorized - Please log in again''
      else if status r = 404 then ''Session not found - it may have already been deleted''
      else if status r = 403 then ''You do not have permission to delete this session''
      else ''Failed to delete session ('' @ string_of_nat (status r) @ '')'')"

text \<open>The \<open>finally\<close> block.\<close>

definition handleDelete_finally :: "sessions_state \<Rightarrow> sessions_state" where
  "handleDelete_finally s = s\<lparr>deletingId := None, deleteConfirmId := None\<rparr>"

text \<open>The \<open>catch\<close> block, followed by \<open>finally\<close>.\<close>

definition handleDelete_catch ::
  "thrown \<Rightarrow> sessions_state \<Rightarrow> effect list \<Rightarrow> sessions_state \<times> effect list" where
  "handleDelete_catch err s fx =
     (let errorMessage = (case err of Error m \<Rightarrow> m | NonError \<Rightarrow> ''Failed to delete session'')
      in (handleDelete_finally (s\<lparr>deleteError := Some errorMessage\<rparr>),
          fx @ [ConsoleError ''Error deleting session:'', SetTimeout ClearDeleteError 5000]))"

text \<open>
  The statements after the status check, followed by \<open>finally\<close>. The list is updated
  with a functional update, so the filter runs on the list held when the update is
  applied (\<open>s\<close>); \<open>selectedSession\<close> and \<open>readmeData.find\<close> read the values captured by
  the render that created the handler (\<open>c\<close>).
\<close>

definition handleDelete_success ::
  "sessions_state \<Rightarrow> string \<Rightarrow> sessions_state \<Rightarrow> effect list \<Rightarrow> sessions_state \<times> effect list" where
  "handleDelete_success c i s fx =
     (let s1 = s\<lparr>readmeData := filter (\<lambda>item. id' item \<noteq> i) (readmeData s)\<rparr>;
          s2 = (if selectedSession c = Some i
                then s1\<lparr>selectedSession := None, isPreviousSelected := False,
                        currentReadme := Some ''''\<rparr>
                else s1);
          shown = (case find (\<lambda>item. id' item = i) (readmeData c) of
                     None \<Rightarrow> ''Session''
                   | Some d \<Rightarrow> if filename d = [] then ''Session'' else filename d);
          s3 = s2\<lparr>deleteSuccess := Some ([CHR 0x22] @ shown @ [CHR 0x22] @ '' deleted successfully'')\<rparr>
      in (handleDelete_finally s3, fx @ [SetTimeout ClearDeleteSuccess 3000]))"

definition handleDelete ::
  "sessions_state \<Rightarrow> env \<Rightarrow> string \<Rightarrow> sessions_state \<Rightarrow> sessions_state \<times> effect list" where
  "handleDelete c e i s =
     (let s0 = s\<lparr>deletingId := Some i, deleteError := None\<rparr>
      in case getToken e of
           Rejects err \<Rightarrow> handleDelete_catch err s0 []
         | Resolves token \<Rightarrow>
             (let req = delete_request e token i
              in case fetch e req of
                   Rejects err \<Rightarrow> handleDelete_catch err s0 [Fetched req]
                 | Resolves r \<Rightarrow>
                     if \<not> ok r then handleDelete_catch (Error (delete_failure r)) s0 [Fetched req]
                     else handleDelete_success c i s0 [Fetched req]))"






section \<open>DropZone\<close>

text \<open>
  \<open>handleDrop\<close> with the component's \<open>disabled\<close> prop and the files of the drop event:
  the new value of \<open>isDragOver\<close> and the calls of \<open>onFileSelect\<close>, in order.
\<close>

definition handleDrop :: "bool \<Rightarrow> File list \<Rightarrow> bool \<times> File list" where
  "handleDrop disabled files =
     (False, if disabled then [] else (case files of [] \<Rightarrow> [] | f # _ \<Rightarrow> [f]))"

text \<open>\<open>handleFileInput\<close>; the input's \<open>files\<close> may be \<open>null\<close>.\<close>

definition handleFileInput :: "File list option \<Rightarrow> File list" where
  "handleFileInput files =
     (case files of None \<Rightarrow> [] | Some [] \<Rightarrow> [] | Some (f # _) \<Rightarrow> [f])"

section \<open>AIModelDropdown\<close>

datatype icon = Sparkles | Zap

text \<open>
  The interface \<open>AIModel\<close>; its field \<open>id\<close> is written \<open>model_id\<close> here. In the
  descriptions of \<open>defaultModels\<close> the dash of the source is written as a hyphen.
\<close>

record AIModel =
  model_id :: string
  name :: string
  provider :: string
  icon :: icon
  description :: string

definition defaultModels :: "AIModel list" where
  "defaultModels =
     [\<lparr>model_id = ''gemini-2.0-flash'', name = ''Gemini 2.0 Flash'', provider = ''Google'',
       icon = Sparkles,
       description = ''v1.5 - Prior top-tier model with large context and strong multimodal abilities''\<rparr>,
      \<lparr>model_id = ''gemini-2.5-flash'', name = ''Gemini 2.5 Flash'', provider = ''Google'',
       icon = Sparkles,
       description = ''v1.5 - Prior top-tier model with large context and strong multimodal abilities''\<rparr>,
      \<lparr>model_id = ''gemini-1.5-flash'', name = ''Gemini 1.5 Flash'', provider = ''Google'',
       icon = Sparkles,
       description = ''v2.5 - Most advanced Gemini model with superior reasoning and 1M token context''\<rparr>,
      \<lparr>model_id = ''gemini-pro'', name = ''Gemini Pro'', provider = ''Google'',
       icon = Zap,
       description = ''v2.0 - Lightweight, fast generation, good for real-time tasks''\<rparr>]"

record dropdown_state =
  isOpen :: bool
  selectedModel :: "AIModel option"

text \<open>
  The initial state: \<open>models.find(m => m.id === defaultModel) || models[0]\<close>. The prop
  \<open>defaultModel\<close> is optional, and \<open>models[0]\<close> of an empty list is \<open>undefined\<close>.
\<close>

definition initialSelectedModel :: "AIModel list \<Rightarrow> string option \<Rightarrow> AIModel option" where
  "initialSelectedModel models defaultModel =
     (case find (\<lambda>m. Some (model_id m) = defaultModel) models of
        Some m \<Rightarrow> Some m
      | None \<Rightarrow> (case models of [] \<Rightarrow> None | m # _ \<Rightarrow> Some m))"

definition AIModelDropdown_init :: "AIModel list \<Rightarrow> string option \<Rightarrow> dropdown_state" where
  "AIModelDropdown_init models defaultModel =
     \<lparr>isOpen = False, selectedModel = initialSelectedModel models defaultModel\<rparr>"

text \<open>\<open>handleModelSelect\<close>: the new state and the calls of \<open>onModelChange\<close>.\<close>

definition handleModelSelect :: "AIModel \<Rightarrow> dropdown_state \<Rightarrow> dropdown_state \<times> AIModel list" where
  "handleModelSelect m d = (d\<lparr>selectedModel := Some m, isOpen := False\<rparr>, [m])"

text \<open>The trigger button shows \<open>selectedModel.name\<close>.\<close>

definition displayed_name :: "dropdown_state \<Rightarrow> string option" where
  "displayed_name d = map_option name (selectedModel d)"

section \<open>HomePage\<close>

record home_state = app_context +
  selectedFile :: "File option"
  isGenerating :: bool
  userPrompt :: string
  model :: string
  showCodeBlock :: bool

definition HomePage_init :: "app_context \<Rightarrow> home_state" where
  "HomePage_init a =
     \<lparr>currentReadme = currentReadme a, dailyTokensUsed = dailyTokensUsed a,
      tokenLimit = tokenLimit a, apiKey = apiKey a,
      selectedFile = None, isGenerating = False, userPrompt = [],
      model = ''gemini-1.5-pro'', showCodeBlock = False\<rparr>"

definition handleFileSelect :: "File \<Rightarrow> home_state \<Rightarrow> home_state \<times> effect list" where
  "handleFileSelect f s =
     (s\<lparr>selectedFile := Some f\<rparr>, [Toast ToastSuccess (''Selected: '' @ file_name f) None])"

text \<open>The four \<open>formData.append\<close> calls of \<open>generateReadme\<close>, in order.\<close>

definition formData :: "File \<Rightarrow> string \<Rightarrow> string \<Rightarrow> string \<Rightarrow> (string \<times> form_value) list" where
  "formData f key userPrompt' model'' =
     [(''file'', FileField f),
      (''api_key'', TextField key),
      (''prompt'', TextField userPrompt'),
      (''model'', TextField (if model'' = [] then ''gemini-1.5-flash'' else model''))]"

definition generate_request ::
  "env \<Rightarrow> string option \<Rightarrow> File \<Rightarrow> string \<Rightarrow> string \<Rightarrow> string \<Rightarrow> request" where
  "generate_request e token f key userPrompt' model'' =
     \<lparr>url = base_url e @ ''/generate'',
      http_method = ''POST'',
      headers = [(''Authorization'', bearer token)],
      body = formData f key userPrompt' model''\<rparr>"

text \<open>\<open>error?.error || 'Something went wrong'\<close> on the parsed body of a failed response.\<close>

definition error_of_json :: "json \<Rightarrow> string" where
  "error_of_json j =
     (case j of
        JNull \<Rightarrow> ''Something went wrong''
      | JObject kvs \<Rightarrow>
          (case map_of kvs ''error'' of
             None \<Rightarrow> ''Something went wrong''
           | Some m \<Rightarrow> if m = [] then ''Something went wrong'' else m))"

text \<open>The \<open>finally\<close> block of \<open>generateReadme\<close>.\<close>

definition generateReadme_finally :: "home_state \<Rightarrow> home_state" where
  "generateReadme_finally s = s\<lparr>showCodeBlock := True, isGenerating := False\<rparr>"

text \<open>
  The \<open>catch\<close> block, followed by \<open>finally\<close>; \<open>error.message\<close> of a value that is not an
  Error is \<open>undefined\<close>.
\<close>

definition generateReadme_catch ::
  "thrown \<Rightarrow> home_state \<Rightarrow> effect list \<Rightarrow> home_state \<times> effect list" where
  "generateReadme_catch err s fx =
     (generateReadme_finally s,
      fx @ [Toast ToastError
              (''Failed to generate README: '' @ (case err of Error m \<Rightarrow> m | NonError \<Rightarrow> ''undefined''))
              (Some ''generating'')])"

definition generateReadme ::
  "env \<Rightarrow> File option \<Rightarrow> string \<Rightarrow> string \<Rightarrow> string \<Rightarrow> home_state \<Rightarrow> home_state \<times> effect list" where
  "generateReadme e selectedFile' key userPrompt' model'' s =
     (case selectedFile' of
        None \<Rightarrow> (s, [Toast ToastError ''Please select a project file first'' None])
      | Some f \<Rightarrow>
          (let s0 = s\<lparr>isGenerating := True\<rparr>;
               fx0 = [Toast ToastLoading ''AI is analyzing your project...'' (Some ''generating'')]
           in case getToken e of
                Rejects err \<Rightarrow> generateReadme_catch err s0 fx0
              | Resolves token \<Rightarrow>
                  (let req = generate_request e token f key userPrompt' model'';
                       fx1 = fx0 @ [Fetched req]
                   in case fetch e req of
                        Rejects err \<Rightarrow> generateReadme_catch err s0 fx1
                      | Resolves res \<Rightarrow>
                          if \<not> ok res then
                            (case body_json res of
                               Rejects err \<Rightarrow> generateReadme_catch err s0 fx1
                             | Resolves j \<Rightarrow> generateReadme_catch (Error (error_of_json j)) s0 fx1)
                          else
                            (case body_text res of
                               Rejects err \<Rightarrow> generateReadme_catch err s0 fx1
                             | Resolves txt \<Rightarrow>
                                 (generateReadme_finally (s0\<lparr>currentReadme := Some txt\<rparr>),
                                  fx1 @ [Toast ToastSuccess ''README generated successfully!''
                                           (Some ''generating'')])))))"

text \<open>
  The page as the user drives it. The upload section (drop zone, requirement field,
  model dropdown, generate button) is rendered only while \<open>showCodeBlock\<close> is false;
  the drop zone is disabled while \<open>isGenerating\<close>, the button while no file is selected
  or \<open>isGenerating\<close>. \<open>PickModel\<close> is the click on an entry of the opened menu. A
  handler runs to its end before the next event.
\<close>

datatype home_event =
    Drop "File list"
  | FileInput "File list option"
  | PromptChange string
  | PickModel AIModel
  | ClickGenerate env

record home_page =
  page_state :: home_state
  dropdown :: dropdown_state
  effects :: "effect list"

definition HomePage_mount :: "app_context \<Rightarrow> home_page" where
  "HomePage_mount a =
     \<lparr>page_state = HomePage_init a,
      dropdown = AIModelDropdown_init defaultModels (Some ''gemini-1.5-pro''),
      effects = []\<rparr>"

text \<open>The calls of \<open>onFileSelect\<close> a drop zone handler made, run by \<open>handleFileSelect\<close>.\<close>

fun select_files :: "File list \<Rightarrow> home_state \<times> effect list \<Rightarrow> home_state \<times> effect list" where
  "select_files [] sf = sf"
| "select_files (f # fs) (s, fx) =
     (case handleFileSelect f s of (s', fx') \<Rightarrow> select_files fs (s', fx @ fx'))"

text \<open>The calls of \<open>onModelChange\<close>, run by \<open>(model) => setModel(model.id)\<close>.\<close>

fun change_models :: "AIModel list \<Rightarrow> home_state \<Rightarrow> home_state" where
  "change_models [] s = s"
| "change_models (m # ms) s = change_models ms (s\<lparr>model := model_id m\<rparr>)"

definition home_step :: "home_page \<Rightarrow> home_event \<Rightarrow> home_page" where
  "home_step p ev =
     (let s = page_state p in
      if showCodeBlock s then p
      else (case ev of
              Drop files \<Rightarrow>
                (case select_files (snd (handleDrop (isGenerating s) files)) (s, effects p) of
                   (s', fx) \<Rightarrow> p\<lparr>page_state := s', effects := fx\<rparr>)
            | FileInput files \<Rightarrow>
                (case select_files (handleFileInput files) (s, effects p) of
                   (s', fx) \<Rightarrow> p\<lparr>page_state := s', effects := fx\<rparr>)
            | PromptChange newPrompt \<Rightarrow> p\<lparr>page_state := s\<lparr>userPrompt := newPrompt\<rparr>\<rparr>
            | PickModel m \<Rightarrow>
                (case handleModelSelect m (dropdown p) of
                   (d, calls) \<Rightarrow> p\<lparr>page_state := change_models calls s, dropdown := d\<rparr>)
            | ClickGenerate e \<Rightarrow>
                if selectedFile s = None \<or> isGenerating s then p
                else (case generateReadme e (selectedFile s) (apiKey s) (userPrompt s) (model s) s of
                        (s', fx) \<Rightarrow> p\<lparr>page_state := s', effects := effects p @ fx\<rparr>)))"

text \<open>The requests among the effects of a handler, in the order they were issued.\<close>

definition requests :: "effect list \<Rightarrow> request list" where
  "requests fx = concat (map (\<lambda>x. case x of Fetched r \<Rightarrow> [r] | _ \<Rightarrow> []) fx)"

fun is_pick :: "home_event \<Rightarrow> bool" where
  "is_pick (PickModel m) = True"
| "is_pick _ = False"

text \<open>
  The page submits model identifier \<open>m\<close>: it is the value of the \<open>model\<close> cell, and the
  \<open>model\<close> field of every request issued so far.
\<close>

definition submits :: "string \<Rightarrow> home_page \<Rightarrow> bool" where
  "submits m p =
     (model (page_state p) = m
      \<and> (\<forall>r\<in>set (requests (effects p)). map_of (body r) ''model'' = Some (TextField m)))"

section \<open>DeleteConfirmationModal\<close>

text \<open>
  The typed text is inspected character by character, so the strings of this component
  are lists of UTF-16 code units, as JavaScript strings are. \<open>white_space\<close> is the set
  \<open>String.prototype.trim\<close> removes: the WhiteSpace and LineTerminator code points of
  ECMAScript.
\<close>

type_synonym js_string = "nat list"

definition utf16 :: "string \<Rightarrow> js_string" where
  "utf16 s = map of_char s"

definition white_space :: "nat \<Rightarrow> bool" where
  "white_space c =
     (c \<in> set [0x9, 0xA, 0xB, 0xC, 0xD, 0x20, 0xA0, 0x1680, 0x2028, 0x2029, 0x202F,
               0x205F, 0x3000, 0xFEFF]
      \<or> (0x2000 \<le> c \<and> c \<le> 0x200A))"

definition trim :: "js_string \<Rightarrow> js_string" where
  "trim s = rev (dropWhile white_space (rev (dropWhile white_space s)))"

definition isMatch :: "js_string \<Rightarrow> js_string \<Rightarrow> bool" where
  "isMatch inputValue itemName = (trim inputValue = itemName)"

text \<open>The \<open>disabled\<close> attribute of the Delete button.\<close>

definition confirm_disabled :: "js_string \<Rightarrow> js_string \<Rightarrow> bool" where
  "confirm_disabled inputValue itemName = (\<not> isMatch inputValue itemName)"

datatype modal_event = Change js_string | ClickCancel | ClickConfirm

datatype modal_callback = OnCancel | OnConfirm

text \<open>
  One user event on the modal: the new \<open>inputValue\<close> and the callbacks of the parent
  that run. Nothing is rendered unless \<open>isOpen\<close>, and a click on a disabled button
  runs no handler.
\<close>

definition DeleteConfirmationModal_step ::
  "bool \<Rightarrow> js_string \<Rightarrow> js_string \<Rightarrow> modal_event \<Rightarrow> js_string \<times> modal_callback list" where
  "DeleteConfirmationModal_step isOpen' itemName inputValue ev =
     (if \<not> isOpen' then (inputValue, [])
      else (case ev of
              Change v \<Rightarrow> (v, [])
            | ClickCancel \<Rightarrow> (inputValue, [OnCancel])
            | ClickConfirm \<Rightarrow>
                (inputValue, if confirm_disabled inputValue itemName then [] else [OnConfirm])))"

section \<open>SettingsPage\<close>

record settings_state = app_context +
  showApiKey :: bool
  isEditing :: bool
  isSaving :: bool
  isLoading :: bool
  showDelete :: bool
  localApiKey :: string

definition tokenUsagePercentOrg :: "'a app_context_scheme \<Rightarrow> real" where
  "tokenUsagePercentOrg a = (dailyTokensUsed a / tokenLimit a) * 100"

definition tokenUsagePercent :: "'a app_context_scheme \<Rightarrow> real" where
  "tokenUsagePercent a = min (tokenUsagePercentOrg a) 100"

text \<open>The value shown above the label Remaining: \<open>{tokenLimit - dailyTokensUsed}\<close>.\<close>

definition remaining :: "'a app_context_scheme \<Rightarrow> real" where
  "remaining a = tokenLimit a - dailyTokensUsed a"

definition delete_account_request :: "env \<Rightarrow> string option \<Rightarrow> request" where
  "delete_account_request e token =
     \<lparr>url = base_url e @ ''/delete-account'',
      http_method = ''DELETE'',
      headers = [(''Content-Type'', ''application/json''), (''Authorization'', bearer token)],
      body = []\<rparr>"

definition handleDeleteAccount_catch :: "settings_state \<Rightarrow> effect list \<Rightarrow> settings_state \<times> effect list" where
  "handleDeleteAccount_catch s fx =
     (s, fx @ [ConsoleError ''Error deleting account:'',
               Toast ToastError ''Failed to delete account. Please try again.'' None])"

definition handleDeleteAccount :: "env \<Rightarrow> settings_state \<Rightarrow> settings_state \<times> effect list" where
  "handleDeleteAccount e s =
     (case getToken e of
        Rejects err \<Rightarrow> handleDeleteAccount_catch s []
      | Resolves token \<Rightarrow>
          (let req = delete_account_request e token
           in case fetch e req of
                Rejects err \<Rightarrow> handleDeleteAccount_catch s [Fetched req]
              | Resolves r \<Rightarrow>
                  if \<not> ok r then handleDeleteAccount_catch s [Fetched req]
                  else (s\<lparr>showDelete := False\<rparr>,
                        [Fetched req, Toast ToastSuccess ''Account deleted successfully!'' None,
                         SetTimeout SignOutAndRedirect 1500])))"

text \<open>
  The modal as SettingsPage mounts it: \<open>isOpen={showDelete}\<close>,
  \<open>onCancel={() => setShowDelete(false)}\<close>, \<open>onConfirm={handleDeleteAccount}\<close>,
  \<open>itemName="Delete Account"\<close>.
\<close>

fun settings_callbacks ::
  "env \<Rightarrow> modal_callback list \<Rightarrow> settings_state \<times> effect list \<Rightarrow> settings_state \<times> effect list" where
  "settings_callbacks e [] sf = sf"
| "settings_callbacks e (OnCancel # cs) (s, fx) = settings_callbacks e cs (s\<lparr>showDelete := False\<rparr>, fx)"
| "settings_callbacks e (OnConfirm # cs) (s, fx) =
     (case handleDeleteAccount e s of (s', fx') \<Rightarrow> settings_callbacks e cs (s', fx @ fx'))"

definition SettingsPage_modal ::
  "env \<Rightarrow> modal_event \<Rightarrow> settings_state \<times> js_string \<Rightarrow> (settings_state \<times> js_string) \<times> effect list" where
  "SettingsPage_modal e ev si =
     (case si of (s, inputValue) \<Rightarrow>
        (case DeleteConfirmationModal_step (showDelete s) (utf16 ''Delete Account'') inputValue ev of
           (inputValue', calls) \<Rightarrow>
             (case settings_callbacks e calls (s, []) of (s', fx) \<Rightarrow> ((s', inputValue'), fx))))"

section \<open>Persistence Store\<close>

text \<open>
  Modelled from the spec: the persisted artifact \<open>ReadmeRecord\<close> of the data model
  (section 3). The server that stores the documents is not among the sources; the record
  is keyed by its identifier in the store below, so the identifier is not a field here.
\<close>

record ReadmeRecord =
  owner :: string
  source_filename :: string
  requirement_text :: string
  model_used :: string
  total_tokens_consumed :: nat
  creation_time :: nat
  document_text :: string

text \<open>
  Modelled from the spec: the store of section 4.6, a finite map from identifiers to
  records; the server's storage code is not among the sources.
\<close>

type_synonym store = "string \<rightharpoonup> ReadmeRecord"

text \<open>Modelled from the spec: the two failures of \<open>get\<close> and \<open>delete\<close> (section 4.6).\<close>

datatype store_error = NotFound | Forbidden

text \<open>
  Modelled from the spec: \<open>get(id, owner)\<close> fails with \<open>NotFound\<close> if absent or
  \<open>Forbidden\<close> if the owner does not match the caller (section 4.6); the server function
  is not among the sources.
\<close>

definition get :: "store \<Rightarrow> string \<Rightarrow> string \<Rightarrow> store_error + ReadmeRecord" where
  "get st i caller =
     (case st i of
        None \<Rightarrow> Inl NotFound
      | Some r \<Rightarrow> if owner r \<noteq> caller then Inl Forbidden else Inr r)"

text \<open>
  Modelled from the spec: \<open>delete(id, owner)\<close> removes exactly one record and fails with
  the same ownership checks as \<open>get\<close> (section 4.6); the server function is not among the
  sources.
\<close>

definition delete :: "store \<Rightarrow> string \<Rightarrow> string \<Rightarrow> store_error + store" where
  "delete st i caller =
     (case get st i caller of
        Inl err \<Rightarrow> Inl err
      | Inr r \<Rightarrow> Inr (st(i := None)))"

section \<open>Chunker\<close>

text \<open>
  Modelled from the spec: \<open>FileEntry\<close> of the data model (section 3), with the truncation
  flag of section 4.1. The pipeline runs on the server, which is not among the sources.
\<close>

record FileEntry =
  path :: string
  byte_size :: nat
  raw_content :: string
  language_tag :: string
  truncated :: bool


text \<open>
  Modelled from the spec: the token estimate of an entry (section 4.3). The estimation
  function maps text length to a token count; the spec fixes no ratio, so the function
  \<open>est\<close> is a parameter. The server code is not among the sources.
\<close>

definition entry_tokens :: "(nat \<Rightarrow> nat) \<Rightarrow> FileEntry \<Rightarrow> nat" where
  "entry_tokens est e = est (length (raw_content e))"

definition chunk_tokens :: "(nat \<Rightarrow> nat) \<Rightarrow> FileEntry list \<Rightarrow> nat" where
  "chunk_tokens est es = sum_list (map (entry_tokens est) es)"






section \<open>Prompt Orchestrator\<close>

text \<open>
  Modelled from the spec: the answer of the generative model boundary (section 6), the
  output text with the tokens consumed, or a failure. The server code is not among the
  sources.
\<close>

datatype call_result = Output string nat | Failed



text \<open>Modelled from the spec: the states of the state machine of section 4.4.\<close>

datatype phase = Pending | InProgress nat | Complete | PartialFailure

text \<open>Modelled from the spec: what the orchestrator does, in order (section 4.4).\<close>

datatype orchestrator_event = Called nat | Backoff

text \<open>
  Modelled from the spec: the \<open>GenerationSession\<close> of the data model (section 3), with
  the merged document, the number of calls issued and the events so far. The server code
  is not among the sources.
\<close>

record GenerationSession =
  merged :: string
  outputs :: "string list"
  tokens_used :: nat
  calls :: nat
  events :: "orchestrator_event list"





section \<open>Example inputs\<close>

text \<open>Concrete values at which the theorems below are instantiated.\<close>

definition example_context :: app_context where
  "example_context =
     \<lparr>currentReadme = None, dailyTokensUsed = 1200, tokenLimit = 1000, apiKey = ''key''\<rparr>"

definition entry :: "string \<Rightarrow> string \<Rightarrow> ReadmeData" where
  "entry i f =
     \<lparr>id' = i, filename = f, created_at = ''2025-01-01'', prompt = [], model' = ''gemini-pro'',
      total_tokens = 10, content = None\<rparr>"

definition example_sessions :: sessions_state where
  "example_sessions =
     \<lparr>currentReadme = None, dailyTokensUsed = 1200, tokenLimit = 1000, apiKey = ''key'',
      searchTerm = [], selectedSession = Some ''b'', isPreviousSelected = True,
      readmeData = [entry ''a'' ''a.zip'', entry ''b'' ''b.zip'', entry ''c'' ''c.zip''],
      loading = False, error = None, deleteConfirmId = Some ''b'', deletingId = None,
      deleteError = None, deleteSuccess = None\<rparr>"

text \<open>A server that answers every request with the given status and body text.\<close>

definition server :: "nat \<Rightarrow> string \<Rightarrow> env" where
  "server st txt =
     \<lparr>base_url = ''http://api'', getToken = Resolves (Some ''token''),
      fetch = (\<lambda>_. Resolves \<lparr>status = st, body_text = Resolves txt, body_json = Resolves JNull\<rparr>)\<rparr>"

definition example_file :: File where
  "example_file = \<lparr>file_name = ''project.zip'', file_size = 3, file_bytes = [80, 75, 3]\<rparr>"

definition example_settings :: settings_state where
  "example_settings =
     \<lparr>currentReadme = None, dailyTokensUsed = 1200, tokenLimit = 1000, apiKey = ''key'',
      showApiKey = False, isEditing = False, isSaving = False, isLoading = False,
      showDelete = True, localApiKey = ''key''\<rparr>"








section \<open>Properties of SessionsPage\<close>

lemma handleDelete_readmeData:
  "readmeData (fst (handleDelete c e i s)) =
     (case getToken e of
        Rejects err \<Rightarrow> readmeData s
      | Resolves token \<Rightarrow>
          (case fetch e (delete_request e token i) of
             Rejects err \<Rightarrow> readmeData s
           | Resolves r \<Rightarrow>
               if ok r then filter (\<lambda>item. id' item \<noteq> i) (readmeData s) else readmeData s))"
  by (simp add: handleDelete_def handleDelete_catch_def handleDelete_success_def
      handleDelete_finally_def Let_def split: promise.splits)

lemma length_filter_key_distinct:
  "distinct (map f xs) \<Longrightarrow> k \<in> f ` set xs \<Longrightarrow> length (filter (\<lambda>x. f x = k) xs) = 1"
proof (induction xs)
  case Nil
  then show ?case by simp
next
  case (Cons a xs)
  show ?case
  proof (cases "f a = k")
    case True
    with Cons.prems have "\<forall>x\<in>set xs. f x \<noteq> k" by (metis distinct.simps(2) image_eqI list.simps(9) list.set_map)
    then have "filter (\<lambda>x. f x = k) xs = []" by (simp add: filter_empty_conv)
    with True show ?thesis by simp
  next
    case False
    with Cons show ?thesis by auto
  qed
qed

lemma length_filter_split:
  "length (filter (\<lambda>x. f x \<noteq> k) xs) + length (filter (\<lambda>x. f x = k) xs) = length xs"
  by (induction xs) auto

text \<open>
  Claim C1. When the DELETE request for an id is answered with a success status,
  \<open>handleDelete\<close> removes from the session list exactly the entries with that id: no
  entry of the new list has the id, the entries with another id are all kept, unchanged
  and in their order, and the list shrinks by the number of entries with the id (by one
  when ids are unique and the id is listed). When the request is answered with any other
  status, the list is unchanged.
\<close>

theorem handleDelete_removes_exactly:
  assumes "getToken e = Resolves token"
    and "fetch e (delete_request e token i) = Resolves r"
  shows "(ok r \<longrightarrow>
            (\<forall>x \<in> set (readmeData (fst (handleDelete c e i s))). id' x \<noteq> i)
          \<and> filter (\<lambda>x. id' x \<noteq> i) (readmeData s) = readmeData (fst (handleDelete c e i s))
          \<and> subseq (readmeData (fst (handleDelete c e i s))) (readmeData s)
          \<and> length (readmeData (fst (handleDelete c e i s)))
              + length (filter (\<lambda>x. id' x = i) (readmeData s)) = length (readmeData s)
          \<and> (distinct (map id' (readmeData s)) \<and> i \<in> id' ` set (readmeData s) \<longrightarrow>
               Suc (length (readmeData (fst (handleDelete c e i s)))) = length (readmeData s)))
       \<and> (\<not> ok r \<longrightarrow> readmeData (fst (handleDelete c e i s)) = readmeData s)"
proof -
  have after: "readmeData (fst (handleDelete c e i s)) =
      (if ok r then filter (\<lambda>x. id' x \<noteq> i) (readmeData s) else readmeData s)"
    using assms by (simp add: handleDelete_readmeData)
  show ?thesis
    unfolding after
    using length_filter_split [of id' i "readmeData s"]
      length_filter_key_distinct [of id' "readmeData s" i]
    by auto
qed

theorem handleDelete_removes_exactly_witness:
  "readmeData (fst (handleDelete example_sessions (server 200 []) ''b'' example_sessions))
     = [entry ''a'' ''a.zip'', entry ''c'' ''c.zip'']
   \<and> readmeData (fst (handleDelete example_sessions (server 404 []) ''b'' example_sessions))
     = [entry ''a'' ''a.zip'', entry ''b'' ''b.zip'', entry ''c'' ''c.zip'']"
proof -
  let ?r = "\<lambda>st. \<lparr>status = st, body_text = Resolves [], body_json = Resolves JNull\<rparr>"
  have a: "getToken (server st []) = Resolves (Some ''token'')" for st
    by (simp add: server_def)
  have b: "fetch (server st []) (delete_request (server st []) (Some ''token'') ''b'') = Resolves (?r st)" for st
    by (simp add: server_def)
  have "ok (?r 200)" "\<not> ok (?r 404)" by (simp_all add: ok_def)
  with handleDelete_removes_exactly [OF a b, of 200 example_sessions example_sessions]
    handleDelete_removes_exactly [OF a b, of 404 example_sessions example_sessions]
  show ?thesis
    by (simp add: example_sessions_def entry_def)
qed

section \<open>Properties of HomePage, DropZone and AIModelDropdown\<close>

lemma requests_simps [simp]:
  "requests [] = []"
  "requests (Fetched r # fx) = r # requests fx"
  "requests (Toast k m i # fx) = requests fx"
  "requests (ConsoleError m # fx) = requests fx"
  "requests (SetTimeout t n # fx) = requests fx"
  "requests (fx @ fx') = requests fx @ requests fx'"
  by (simp_all add: requests_def)

lemma generateReadme_requests:
  "requests (snd (generateReadme e sf key p m s)) =
     (case sf of
        None \<Rightarrow> []
      | Some f \<Rightarrow>
          (case getToken e of
             Rejects err \<Rightarrow> []
           | Resolves token \<Rightarrow> [generate_request e token f key p m]))"
  by (simp add: generateReadme_def generateReadme_catch_def Let_def
      split: option.splits promise.splits)

lemma generateReadme_model [simp]: "model (fst (generateReadme e sf key p m s)) = model s"
  by (simp add: generateReadme_def generateReadme_catch_def generateReadme_finally_def Let_def
      split: option.splits promise.splits)

text \<open>
  Claim C3. For every selected file and every requirement string, the empty string
  included, \<open>generateReadme\<close> issues the generation request with the \<open>prompt\<close> field set
  to that string (once the session token has been obtained), and a successful answer
  becomes the shown document: an empty requirement is no error. The handler returns
  early, with the error toast and without any request or state change, exactly when no
  file is selected; with a file selected its first effect is the loading toast, and a
  failure to obtain the token is reported by the catch block, not by an early return.
\<close>

theorem generateReadme_prompt:
  "(sf = None \<longrightarrow>
      generateReadme e sf key p m s = (s, [Toast ToastError ''Please select a project file first'' None])
      \<and> requests (snd (generateReadme e sf key p m s)) = [])
   \<and> (sf \<noteq> None \<longrightarrow>
      generateReadme e sf key p m s \<noteq> (s, [Toast ToastError ''Please select a project file first'' None]))
   \<and> (\<forall>f token. sf = Some f \<and> getToken e = Resolves token \<longrightarrow>
        requests (snd (generateReadme e sf key p m s)) = [generate_request e token f key p m]
        \<and> map_of (body (generate_request e token f key p m)) ''prompt'' = Some (TextField p))
   \<and> (\<forall>req \<in> set (requests (snd (generateReadme e sf key p m s))).
        map_of (body req) ''prompt'' = Some (TextField p))
   \<and> (\<forall>f token res doc.
        sf = Some f \<and> getToken e = Resolves token
        \<and> fetch e (generate_request e token f key p m) = Resolves res
        \<and> ok res \<and> body_text res = Resolves doc \<longrightarrow>
        currentReadme (fst (generateReadme e sf key p m s)) = Some doc
        \<and> last (snd (generateReadme e sf key p m s))
            = Toast ToastSuccess ''README generated successfully!'' (Some ''generating''))"
proof -
  have early: "generateReadme e None key p m s
      = (s, [Toast ToastError ''Please select a project file first'' None])"
    by (simp add: generateReadme_def)
  have late: "hd (snd (generateReadme e (Some f) key p m s))
      = Toast ToastLoading ''AI is analyzing your project...'' (Some ''generating'')" for f
    by (simp add: generateReadme_def generateReadme_catch_def Let_def split: promise.splits)
  have prompt: "map_of (body (generate_request e token f key p m)) ''prompt'' = Some (TextField p)"
    for token f
    by (simp add: generate_request_def formData_def)
  have success: "currentReadme (fst (generateReadme e (Some f) key p m s)) = Some doc
        \<and> last (snd (generateReadme e (Some f) key p m s))
            = Toast ToastSuccess ''README generated successfully!'' (Some ''generating'')"
    if "getToken e = Resolves token" "fetch e (generate_request e token f key p m) = Resolves res"
      "ok res" "body_text res = Resolves doc" for f token res doc
    using that by (simp add: generateReadme_def generateReadme_finally_def Let_def)
  have notearly: "generateReadme e (Some f) key p m s
      \<noteq> (s, [Toast ToastError ''Please select a project file first'' None])" for f
  proof
    assume "generateReadme e (Some f) key p m s
      = (s, [Toast ToastError ''Please select a project file first'' None])"
    then have "hd (snd (generateReadme e (Some f) key p m s))
      = Toast ToastError ''Please select a project file first'' None"
      by simp
    with late [of f] show False by simp
  qed
  have c1: "sf = None \<longrightarrow>
      generateReadme e sf key p m s = (s, [Toast ToastError ''Please select a project file first'' None])
      \<and> requests (snd (generateReadme e sf key p m s)) = []"
    using early by (simp add: generateReadme_requests)
  have c2: "sf \<noteq> None \<longrightarrow>
      generateReadme e sf key p m s \<noteq> (s, [Toast ToastError ''Please select a project file first'' None])"
    using notearly by (cases sf) simp_all
  have c3: "\<forall>f token. sf = Some f \<and> getToken e = Resolves token \<longrightarrow>
        requests (snd (generateReadme e sf key p m s)) = [generate_request e token f key p m]
        \<and> map_of (body (generate_request e token f key p m)) ''prompt'' = Some (TextField p)"
    using prompt by (simp add: generateReadme_requests)
  have c4: "\<forall>req \<in> set (requests (snd (generateReadme e sf key p m s))).
        map_of (body req) ''prompt'' = Some (TextField p)"
    using prompt by (auto simp: generateReadme_requests split: option.splits promise.splits)
  have c5: "\<forall>f token res doc.
        sf = Some f \<and> getToken e = Resolves token
        \<and> fetch e (generate_request e token f key p m) = Resolves res
        \<and> ok res \<and> body_text res = Resolves doc \<longrightarrow>
        currentReadme (fst (generateReadme e sf key p m s)) = Some doc
        \<and> last (snd (generateReadme e sf key p m s))
            = Toast ToastSuccess ''README generated successfully!'' (Some ''generating'')"
    using success by blast
  from c1 c2 c3 c4 c5 show ?thesis by blast
qed


theorem generateReadme_prompt_witness:
  "requests (snd (generateReadme (server 200 ''# Title'') (Some example_file) ''key'' [] ''gemini-1.5-pro''
       (HomePage_init example_context)))
     = [generate_request (server 200 ''# Title'') (Some ''token'') example_file ''key'' [] ''gemini-1.5-pro'']
   \<and> map_of (body (generate_request (server 200 ''# Title'') (Some ''token'') example_file ''key'' []
       ''gemini-1.5-pro'')) ''prompt'' = Some (TextField [])
   \<and> currentReadme (fst (generateReadme (server 200 ''# Title'') (Some example_file) ''key'' []
       ''gemini-1.5-pro'' (HomePage_init example_context))) = Some ''# Title''
   \<and> generateReadme (server 200 ''# Title'') None ''key'' [] ''gemini-1.5-pro'' (HomePage_init example_context)
     = (HomePage_init example_context, [Toast ToastError ''Please select a project file first'' None])"
  using generateReadme_prompt [of "Some example_file" "server 200 ''# Title''" "''key''" "[]"
      "''gemini-1.5-pro''" "HomePage_init example_context"]
    generateReadme_prompt [of None "server 200 ''# Title''" "''key''" "[]"
      "''gemini-1.5-pro''" "HomePage_init example_context"]
  by (simp add: server_def ok_def)

lemma handleDrop_calls: "snd (handleDrop d files) = (if d then [] else take 1 files)"
  by (cases files) (simp_all add: handleDrop_def)

lemma handleFileInput_calls:
  "handleFileInput files = (case files of None \<Rightarrow> [] | Some fs \<Rightarrow> take 1 fs)"
  by (simp add: handleFileInput_def split: option.splits list.splits)

text \<open>
  Claim C4. A drop passes to \<open>onFileSelect\<close> at most one file, the first of the dropped
  list, and nothing when the list is empty (nor when the zone is disabled);
  \<open>generateReadme\<close> appends one \<open>file\<close> field, one \<open>prompt\<close> field and one \<open>model\<close>
  field (and one \<open>api_key\<close> field), the model being \<open>gemini-1.5-flash\<close> when the model
  string is empty, and that form is the body of every request it issues.
\<close>

theorem upload_carries_one_file:
  "snd (handleDrop d files) = (if d then [] else take 1 files)
   \<and> (files = [] \<longrightarrow> snd (handleDrop d files) = [])
   \<and> (\<not> d \<and> files \<noteq> [] \<longrightarrow> snd (handleDrop d files) = [hd files])
   \<and> length (snd (handleDrop d files)) \<le> 1
   \<and> map fst (formData f key p m) = [''file'', ''api_key'', ''prompt'', ''model'']
   \<and> map_of (formData f key p m) ''file'' = Some (FileField f)
   \<and> map_of (formData f key p m) ''prompt'' = Some (TextField p)
   \<and> map_of (formData f key p m) ''model''
       = Some (TextField (if m = [] then ''gemini-1.5-flash'' else m))
   \<and> (\<forall>req \<in> set (requests (snd (generateReadme e sf key p m s))).
        \<exists>g. sf = Some g \<and> body req = formData g key p m)"
proof -
  have drop1: "snd (handleDrop d files) = (if d then [] else take 1 files)"
    by (rule handleDrop_calls)
  have drop2: "files = [] \<longrightarrow> snd (handleDrop d files) = []"
    by (simp add: handleDrop_calls)
  have drop3: "\<not> d \<and> files \<noteq> [] \<longrightarrow> snd (handleDrop d files) = [hd files]"
    by (cases files) (simp_all add: handleDrop_calls)
  have drop4: "length (snd (handleDrop d files)) \<le> 1"
    by (simp add: handleDrop_calls)
  have form: "map fst (formData f key p m) = [''file'', ''api_key'', ''prompt'', ''model'']"
    "map_of (formData f key p m) ''file'' = Some (FileField f)"
    "map_of (formData f key p m) ''prompt'' = Some (TextField p)"
    "map_of (formData f key p m) ''model'' = Some (TextField (if m = [] then ''gemini-1.5-flash'' else m))"
    by (simp_all add: formData_def)
  have req: "\<forall>req \<in> set (requests (snd (generateReadme e sf key p m s))).
        \<exists>g. sf = Some g \<and> body req = formData g key p m"
    by (auto simp: generateReadme_requests generate_request_def split: option.splits promise.splits)
  from drop1 drop2 drop3 drop4 form req show ?thesis by blast
qed


theorem upload_carries_one_file_witness:
  "snd (handleDrop False [example_file, example_file\<lparr>file_name := ''other.zip''\<rparr>]) = [example_file]
   \<and> snd (handleDrop False []) = []
   \<and> map fst (formData example_file ''key'' [] []) = [''file'', ''api_key'', ''prompt'', ''model'']
   \<and> map_of (formData example_file ''key'' [] []) ''model'' = Some (TextField ''gemini-1.5-flash'')
   \<and> map (\<lambda>r. map_of (body r) ''file'')
         (requests (snd (generateReadme (server 200 []) (Some example_file) ''key'' [] []
            (HomePage_init example_context))))
       = [Some (FileField example_file)]"
proof -
  have r: "requests (snd (generateReadme (server 200 []) (Some example_file) ''key'' [] []
            (HomePage_init example_context)))
      = [generate_request (server 200 []) (Some ''token'') example_file ''key'' [] []]"
    by (simp add: generateReadme_requests server_def)
  show ?thesis
    using upload_carries_one_file [of False "[example_file, example_file\<lparr>file_name := ''other.zip''\<rparr>]"
        example_file "''key''" "[]" "[]" "server 200 []" "Some example_file" "HomePage_init example_context"]
      upload_carries_one_file [of False "[]"
        example_file "''key''" "[]" "[]" "server 200 []" "Some example_file" "HomePage_init example_context"]
    by (simp add: r)
qed

lemma initialSelectedModel_found:
  "\<exists>m\<in>set models. model_id m = d \<Longrightarrow>
     \<exists>pre m post. models = pre @ m # post \<and> (\<forall>x\<in>set pre. model_id x \<noteq> d) \<and> model_id m = d
        \<and> initialSelectedModel models (Some d) = Some m"
proof -
  assume "\<exists>m\<in>set models. model_id m = d"
  then obtain m where f: "find (\<lambda>m. model_id m = d) models = Some m"
    by (cases "find (\<lambda>m. model_id m = d) models") (auto simp: find_None_iff)
  then obtain i where i: "i < length models" "model_id (models ! i) = d" "m = models ! i"
    "\<forall>j<i. model_id (models ! j) \<noteq> d"
    by (auto simp: find_Some_iff)
  have "models = take i models @ m # drop (Suc i) models"
    using i by (simp add: id_take_nth_drop)
  moreover have "\<forall>x\<in>set (take i models). model_id x \<noteq> d"
    using i by (auto simp: in_set_conv_nth)
  moreover have "initialSelectedModel models (Some d) = Some m"
    using f by (simp add: initialSelectedModel_def)
  ultimately show ?thesis using i by blast
qed

lemma initialSelectedModel_fallback:
  "\<forall>m\<in>set models. model_id m \<noteq> d \<Longrightarrow>
     initialSelectedModel models (Some d) = (case models of [] \<Rightarrow> None | m # _ \<Rightarrow> Some m)"
proof -
  assume "\<forall>m\<in>set models. model_id m \<noteq> d"
  then have "find (\<lambda>m. model_id m = d) models = None"
    by (simp add: find_None_iff)
  then show ?thesis by (simp add: initialSelectedModel_def)
qed

lemma initialSelectedModel_member:
  "models \<noteq> [] \<Longrightarrow> \<exists>m\<in>set models. initialSelectedModel models (Some d) = Some m"
proof (cases "\<exists>m\<in>set models. model_id m = d")
  case True
  from initialSelectedModel_found [OF True] show ?thesis by auto
next
  case False
  assume "models \<noteq> []"
  with False initialSelectedModel_fallback [of models d] show ?thesis
    by (cases models) auto
qed


lemma select_files_model [simp]: "model (fst (select_files fs (s, fx))) = model s"
  by (induction fs arbitrary: s fx) (simp_all add: handleFileSelect_def)

lemma select_files_requests [simp]: "requests (snd (select_files fs (s, fx))) = requests fx"
  by (induction fs arbitrary: s fx) (simp_all add: handleFileSelect_def)

lemma select_files_kept:
  "select_files fs (s, fx) = (s', fx') \<Longrightarrow> model s' = model s \<and> requests fx' = requests fx"
  using select_files_model [of fs s fx] select_files_requests [of fs s fx] by simp

lemma generate_request_model:
  "map_of (body (generate_request e token f key p m)) ''model''
     = Some (TextField (if m = [] then ''gemini-1.5-flash'' else m))"
  by (simp add: generate_request_def formData_def)

lemma home_step_no_pick:
  assumes "\<not> is_pick ev" and "m \<noteq> []" and "submits m p"
  shows "submits m (home_step p ev) \<and> dropdown (home_step p ev) = dropdown p"
proof (cases "showCodeBlock (page_state p)")
  case True
  with assms show ?thesis by (simp add: home_step_def)
next
  case False
  show ?thesis
  proof (cases ev)
    case (Drop files)
    obtain s' fx where g:
      "select_files (snd (handleDrop (isGenerating (page_state p)) files)) (page_state p, effects p) = (s', fx)"
      by (cases "select_files (snd (handleDrop (isGenerating (page_state p)) files)) (page_state p, effects p)")
    from select_files_kept [OF g] False Drop assms(3) g show ?thesis
      by (simp add: home_step_def submits_def)
  next
    case (FileInput files)
    obtain s' fx where g:
      "select_files (handleFileInput files) (page_state p, effects p) = (s', fx)"
      by (cases "select_files (handleFileInput files) (page_state p, effects p)")
    from select_files_kept [OF g] False FileInput assms(3) g show ?thesis
      by (simp add: home_step_def submits_def)
  next
    case (PromptChange x)
    with False assms(3) show ?thesis by (simp add: home_step_def submits_def)
  next
    case (PickModel x)
    with assms(1) show ?thesis by simp
  next
    case (ClickGenerate e)
    let ?s = "page_state p"
    let ?g = "generateReadme e (selectedFile ?s) (apiKey ?s) (userPrompt ?s) (model ?s) ?s"
    have m: "model (fst ?g) = model ?s" by simp
    have r: "\<forall>r\<in>set (requests (snd ?g)). map_of (body r) ''model'' = Some (TextField m)"
      using assms(2,3)
      by (auto simp: generateReadme_requests generate_request_model submits_def
          split: option.splits promise.splits)
    show ?thesis
    proof (cases "selectedFile ?s = None \<or> isGenerating ?s")
      case True
      with False ClickGenerate assms(3) show ?thesis by (simp add: home_step_def)
    next
      case no: False
      obtain s' fx where g: "?g = (s', fx)" by (cases ?g)
      with m r have "model s' = model ?s"
        "\<forall>r\<in>set (requests fx). map_of (body r) ''model'' = Some (TextField m)"
        by simp_all
      with False no ClickGenerate assms(3) g show ?thesis
        by (auto simp: home_step_def submits_def)
    qed
  qed
qed

lemma foldl_home_step_no_pick:
  assumes "m \<noteq> []"
  shows "submits m p \<Longrightarrow> \<forall>ev\<in>set evs. \<not> is_pick ev \<Longrightarrow>
     submits m (foldl home_step p evs) \<and> dropdown (foldl home_step p evs) = dropdown p"
proof (induction evs arbitrary: p)
  case Nil
  then show ?case by simp
next
  case (Cons ev evs)
  from Cons.prems have "submits m (home_step p ev)" "dropdown (home_step p ev) = dropdown p"
    using home_step_no_pick [OF _ assms, of ev p] by simp_all
  with Cons.IH [of "home_step p ev"] Cons.prems(2) show ?case by simp
qed

lemma HomePage_mount_facts:
  "submits ''gemini-1.5-pro'' (HomePage_mount a)"
  "displayed_name (dropdown (HomePage_mount a)) = Some ''Gemini 2.0 Flash''"
  by (simp_all add: HomePage_mount_def HomePage_init_def submits_def displayed_name_def
      AIModelDropdown_init_def initialSelectedModel_def defaultModels_def)

lemma home_step_pick:
  "\<not> showCodeBlock (page_state p) \<Longrightarrow>
     model (page_state (home_step p (PickModel m))) = model_id m
     \<and> displayed_name (dropdown (home_step p (PickModel m))) = Some (name m)"
  by (simp add: home_step_def handleModelSelect_def displayed_name_def)


text \<open>
  Claim C10. For a non-empty model list the dropdown initially selects the first entry
  whose id equals \<open>defaultModel\<close>, and the first entry of the list when no id matches.
  HomePage passes \<open>gemini-1.5-pro\<close>, which no entry of the default list has, so the
  dropdown shows Gemini 2.0 Flash, while the \<open>model\<close> cell and the \<open>model\<close> field of
  every request stay \<open>gemini-1.5-pro\<close> through every sequence of user events without a
  pick; a pick sets both to the picked entry.
\<close>

theorem dropdown_default_selection:
  "(models \<noteq> [] \<longrightarrow> (\<exists>m\<in>set models. initialSelectedModel models (Some d) = Some m))
   \<and> ((\<exists>m\<in>set models. model_id m = d) \<longrightarrow>
        (\<exists>pre m post. models = pre @ m # post \<and> (\<forall>x\<in>set pre. model_id x \<noteq> d) \<and> model_id m = d
           \<and> initialSelectedModel models (Some d) = Some m))
   \<and> ((\<forall>m\<in>set models. model_id m \<noteq> d) \<longrightarrow>
        initialSelectedModel models (Some d) = (case models of [] \<Rightarrow> None | m # _ \<Rightarrow> Some m))
   \<and> (\<forall>m\<in>set defaultModels. model_id m \<noteq> ''gemini-1.5-pro'')
   \<and> displayed_name (dropdown (HomePage_mount a)) = Some ''Gemini 2.0 Flash''
   \<and> model (page_state (HomePage_mount a)) = ''gemini-1.5-pro''
   \<and> ((\<forall>ev\<in>set evs. \<not> is_pick ev) \<longrightarrow>
        submits ''gemini-1.5-pro'' (foldl home_step (HomePage_mount a) evs)
        \<and> displayed_name (dropdown (foldl home_step (HomePage_mount a) evs)) = Some ''Gemini 2.0 Flash'')
   \<and> (\<not> showCodeBlock (page_state p) \<longrightarrow>
        model (page_state (home_step p (PickModel picked))) = model_id picked
        \<and> displayed_name (dropdown (home_step p (PickModel picked))) = Some (name picked))"
proof -
  have absent: "\<forall>m\<in>set defaultModels. model_id m \<noteq> ''gemini-1.5-pro''"
    by (simp add: defaultModels_def)
  have start: "model (page_state (HomePage_mount a)) = ''gemini-1.5-pro''"
    using HomePage_mount_facts(1) [of a] by (simp add: submits_def)
  have stays: "(\<forall>ev\<in>set evs. \<not> is_pick ev) \<longrightarrow>
        submits ''gemini-1.5-pro'' (foldl home_step (HomePage_mount a) evs)
        \<and> displayed_name (dropdown (foldl home_step (HomePage_mount a) evs)) = Some ''Gemini 2.0 Flash''"
    using foldl_home_step_no_pick [of "''gemini-1.5-pro''" "HomePage_mount a" evs]
      HomePage_mount_facts [of a]
    by simp
  from initialSelectedModel_member [of models d] initialSelectedModel_found [of models d]
    initialSelectedModel_fallback [of models d] absent HomePage_mount_facts(2) [of a] start stays
    home_step_pick [of p picked]
  show ?thesis by blast
qed

theorem dropdown_default_selection_witness:
  "initialSelectedModel defaultModels (Some ''gemini-1.5-pro'') = Some (hd defaultModels)
   \<and> name (hd defaultModels) = ''Gemini 2.0 Flash''
   \<and> model (page_state (foldl home_step (HomePage_mount example_context)
        [Drop [example_file], PromptChange ''docs'', ClickGenerate (server 200 ''# Title'')]))
      = ''gemini-1.5-pro''
   \<and> model (page_state (home_step (HomePage_mount example_context) (PickModel (defaultModels ! 2))))
      = ''gemini-1.5-flash''"
proof -
  have shown: "\<not> showCodeBlock (page_state (HomePage_mount example_context))"
    by (simp add: HomePage_mount_def HomePage_init_def)
  have nopick: "\<forall>ev\<in>set [Drop [example_file], PromptChange ''docs'', ClickGenerate (server 200 ''# Title'')].
      \<not> is_pick ev"
    by simp
  from dropdown_default_selection [of defaultModels "''gemini-1.5-pro''" example_context
      "[Drop [example_file], PromptChange ''docs'', ClickGenerate (server 200 ''# Title'')]"
      "HomePage_mount example_context" "defaultModels ! 2"] shown nopick
  show ?thesis
    by (simp add: submits_def defaultModels_def)
qed

section \<open>Properties of DeleteConfirmationModal and SettingsPage\<close>

lemma dropWhile_all: "list_all P a \<Longrightarrow> dropWhile P (a @ ys) = dropWhile P ys"
  by (induction a) simp_all

lemma dropWhile_keeps: "t \<noteq> [] \<Longrightarrow> \<not> P (hd t) \<Longrightarrow> dropWhile P (t @ ys) = t @ ys"
  by (cases t) simp_all

lemma trim_padded:
  assumes "t \<noteq> []" "\<not> white_space (hd t)" "\<not> white_space (last t)"
    and "list_all white_space a" "list_all white_space b"
  shows "trim (a @ t @ b) = t"
proof -
  have "dropWhile white_space (a @ t @ b) = t @ b"
    using assms by (simp add: dropWhile_all dropWhile_keeps)
  moreover have "dropWhile white_space (rev b @ rev t @ []) = rev t @ []"
    using assms by (simp add: dropWhile_all dropWhile_keeps hd_rev del: append_Nil2)
  ultimately show ?thesis by (simp add: trim_def)
qed

lemma trim_decompose:
  "\<exists>a b. s = a @ trim s @ b \<and> list_all white_space a \<and> list_all white_space b"
proof -
  let ?u = "dropWhile white_space s"
  have "s = takeWhile white_space s @ ?u" by simp
  moreover have "rev ?u = takeWhile white_space (rev ?u) @ dropWhile white_space (rev ?u)" by simp
  then have "?u = trim s @ rev (takeWhile white_space (rev ?u))"
    unfolding trim_def by (metis rev_append rev_rev_ident)
  moreover have "list_all white_space (takeWhile white_space s)"
    "list_all white_space (rev (takeWhile white_space (rev ?u)))"
    by (auto simp: list_all_iff dest: set_takeWhileD)
  ultimately show ?thesis by metis
qed

lemma trim_eq_iff:
  assumes "t \<noteq> []" "\<not> white_space (hd t)" "\<not> white_space (last t)"
  shows "trim s = t \<longleftrightarrow> (\<exists>a b. s = a @ t @ b \<and> list_all white_space a \<and> list_all white_space b)"
  using trim_padded [OF assms] trim_decompose [of s] by metis

lemma Delete_Account_ends:
  "utf16 ''Delete Account'' \<noteq> []"
  "\<not> white_space (hd (utf16 ''Delete Account''))"
  "\<not> white_space (last (utf16 ''Delete Account''))"
  by (simp_all add: utf16_def white_space_def)

lemma modal_confirm_iff:
  "OnConfirm \<in> set (snd (DeleteConfirmationModal_step isOpen' itemName inputValue ev))
     \<longleftrightarrow> isOpen' \<and> ev = ClickConfirm \<and> trim inputValue = itemName"
  by (cases ev) (simp_all add: DeleteConfirmationModal_step_def confirm_disabled_def isMatch_def)


lemma handleDeleteAccount_effects: "snd (handleDeleteAccount e s) \<noteq> []"
  by (simp add: handleDeleteAccount_def handleDeleteAccount_catch_def Let_def split: promise.splits)

lemma SettingsPage_modal_cases:
  "SettingsPage_modal e ev (s, inputValue) =
     (if \<not> showDelete s then ((s, inputValue), [])
      else (case ev of
              Change v \<Rightarrow> ((s, v), [])
            | ClickCancel \<Rightarrow> ((s\<lparr>showDelete := False\<rparr>, inputValue), [])
            | ClickConfirm \<Rightarrow>
                if trim inputValue = utf16 ''Delete Account''
                then ((fst (handleDeleteAccount e s), inputValue), snd (handleDeleteAccount e s))
                else ((s, inputValue), [])))"
  by (cases ev)
    (simp_all add: SettingsPage_modal_def DeleteConfirmationModal_step_def confirm_disabled_def
      isMatch_def split: prod.splits)

text \<open>
  Claim C8. The Delete button of the modal is disabled unless the typed input, trimmed
  of surrounding white space, equals \<open>itemName\<close>, so a user event runs \<open>onConfirm\<close> only
  when the modal is open, the event is a click on that button and the trimmed input
  equals \<open>itemName\<close>. In SettingsPage the event has an effect at all (and so
  \<open>handleDeleteAccount\<close> issues its request) only when the typed text is
  \<open>Delete Account\<close> between white space.
\<close>

theorem confirm_requires_exact_name:
  "confirm_disabled inputValue itemName = (trim inputValue \<noteq> itemName)
   \<and> (OnConfirm \<in> set (snd (DeleteConfirmationModal_step isOpen' itemName inputValue ev))
        \<longleftrightarrow> isOpen' \<and> ev = ClickConfirm \<and> trim inputValue = itemName)
   \<and> (snd (SettingsPage_modal e ev (s, inputValue)) \<noteq> []
        \<longleftrightarrow> showDelete s \<and> ev = ClickConfirm
            \<and> (\<exists>a b. inputValue = a @ utf16 ''Delete Account'' @ b
                   \<and> list_all white_space a \<and> list_all white_space b))
   \<and> (requests (snd (SettingsPage_modal e ev (s, inputValue))) \<noteq> []
        \<longrightarrow> showDelete s \<and> ev = ClickConfirm \<and> trim inputValue = utf16 ''Delete Account'')"
proof -
  have c1: "confirm_disabled inputValue itemName = (trim inputValue \<noteq> itemName)"
    by (simp add: confirm_disabled_def isMatch_def)
  have fx: "snd (SettingsPage_modal e ev (s, inputValue)) \<noteq> []
        \<longleftrightarrow> showDelete s \<and> ev = ClickConfirm \<and> trim inputValue = utf16 ''Delete Account''"
    by (cases ev) (simp_all add: SettingsPage_modal_cases handleDeleteAccount_effects)
  have c3: "snd (SettingsPage_modal e ev (s, inputValue)) \<noteq> []
        \<longleftrightarrow> showDelete s \<and> ev = ClickConfirm
            \<and> (\<exists>a b. inputValue = a @ utf16 ''Delete Account'' @ b
                   \<and> list_all white_space a \<and> list_all white_space b)"
    unfolding fx trim_eq_iff [OF Delete_Account_ends] ..
  have c4: "requests (snd (SettingsPage_modal e ev (s, inputValue))) \<noteq> []
        \<longrightarrow> showDelete s \<and> ev = ClickConfirm \<and> trim inputValue = utf16 ''Delete Account''"
    using fx by auto
  from c1 modal_confirm_iff [of isOpen' itemName inputValue ev] c3 c4 show ?thesis by blast
qed

theorem confirm_requires_exact_name_witness:
  "confirm_disabled (utf16 ''delete account'') (utf16 ''Delete Account'')
   \<and> \<not> confirm_disabled (utf16 ''  Delete Account '') (utf16 ''Delete Account'')
   \<and> requests (snd (SettingsPage_modal (server 200 []) ClickConfirm (example_settings, utf16 ''Delete''))) = []
   \<and> requests (snd (SettingsPage_modal (server 200 []) ClickConfirm
        (example_settings, utf16 '' Delete Account''))) \<noteq> []
   \<and> trim (utf16 '' Delete Account'') = utf16 ''Delete Account''"
proof -
  have t: "trim (utf16 ''delete account'') \<noteq> utf16 ''Delete Account''"
    "trim (utf16 ''  Delete Account '') = utf16 ''Delete Account''"
    "trim (utf16 ''Delete'') \<noteq> utf16 ''Delete Account''"
    by (simp_all add: trim_def utf16_def white_space_def)
  have t4: "trim (utf16 '' Delete Account'') = utf16 ''Delete Account''"
    by (simp add: trim_def utf16_def white_space_def)
  have r: "requests (snd (SettingsPage_modal (server 200 []) ClickConfirm
        (example_settings, utf16 '' Delete Account''))) \<noteq> []"
    by (simp add: SettingsPage_modal_cases t4 example_settings_def handleDeleteAccount_def
        server_def ok_def)
  have w1: "confirm_disabled (utf16 ''delete account'') (utf16 ''Delete Account'')"
    using confirm_requires_exact_name [of "utf16 ''delete account''" "utf16 ''Delete Account''"
      True ClickConfirm "server 200 []" example_settings] t(1) by blast
  have w2: "\<not> confirm_disabled (utf16 ''  Delete Account '') (utf16 ''Delete Account'')"
    using confirm_requires_exact_name [of "utf16 ''  Delete Account ''" "utf16 ''Delete Account''"
      True ClickConfirm "server 200 []" example_settings] t(2) by blast
  have w3: "requests (snd (SettingsPage_modal (server 200 []) ClickConfirm
        (example_settings, utf16 ''Delete''))) = []"
    using confirm_requires_exact_name [of "utf16 ''Delete''" "utf16 ''Delete Account''"
      True ClickConfirm "server 200 []" example_settings] t(3) by blast
  have w4: "trim (utf16 '' Delete Account'') = utf16 ''Delete Account''"
    using confirm_requires_exact_name [of "utf16 '' Delete Account''" "utf16 ''Delete Account''"
      True ClickConfirm "server 200 []" example_settings] r by blast
  from w1 w2 w3 r w4 show ?thesis by blast
qed

text \<open>
  Claim C9. For a positive \<open>tokenLimit\<close> the usage percentage of SettingsPage is
  \<open>min ((dailyTokensUsed / tokenLimit) * 100) 100\<close>, never above 100; when the usage
  exceeds the limit it is 100, while the Remaining value \<open>tokenLimit - dailyTokensUsed\<close>
  is not clamped and is negative. Numbers are reals here; the last part of the theorem
  says that the bound by 100 comes from \<open>Math.min\<close> alone, however the quotient and
  the product are rounded.
\<close>

theorem usage_percent_clamped:
  "(0 < tokenLimit a \<longrightarrow>
      tokenUsagePercent a = min ((dailyTokensUsed a / tokenLimit a) * 100) 100
      \<and> tokenUsagePercent a \<le> 100
      \<and> remaining a = tokenLimit a - dailyTokensUsed a
      \<and> (tokenLimit a < dailyTokensUsed a \<longrightarrow> tokenUsagePercent a = 100 \<and> remaining a < 0))
   \<and> (\<forall>rnd :: real \<Rightarrow> real.
        min (rnd (rnd (dailyTokensUsed a / tokenLimit a) * 100)) 100 \<le> 100)"
proof -
  have over: "100 < (dailyTokensUsed a / tokenLimit a) * 100"
    if "0 < tokenLimit a" "tokenLimit a < dailyTokensUsed a"
    using that by (simp add: pos_less_divide_eq)
  have exact: "0 < tokenLimit a \<longrightarrow>
      tokenUsagePercent a = min ((dailyTokensUsed a / tokenLimit a) * 100) 100
      \<and> tokenUsagePercent a \<le> 100
      \<and> remaining a = tokenLimit a - dailyTokensUsed a
      \<and> (tokenLimit a < dailyTokensUsed a \<longrightarrow> tokenUsagePercent a = 100 \<and> remaining a < 0)"
    using over by (auto simp: tokenUsagePercent_def tokenUsagePercentOrg_def remaining_def)
  have rounded: "\<forall>rnd :: real \<Rightarrow> real.
        min (rnd (rnd (dailyTokensUsed a / tokenLimit a) * 100)) 100 \<le> 100"
    by simp
  from exact rounded show ?thesis by blast
qed

theorem usage_percent_clamped_witness:
  "tokenUsagePercent example_context = 100 \<and> remaining example_context = - 200
   \<and> dailyTokensUsed example_context / tokenLimit example_context * 100 = 120"
  using usage_percent_clamped [of example_context]
  by (simp add: example_context_def remaining_def)


section \<open>Properties of retrieval and of the store\<close>












section \<open>Properties of the pipeline as the spec describes it\<close>

lemma chunk_tokens_simps [simp]:
  "chunk_tokens est [] = 0"
  "chunk_tokens est (e # es) = entry_tokens est e + chunk_tokens est es"
  "chunk_tokens est (xs @ ys) = chunk_tokens est xs + chunk_tokens est ys"
  by (simp_all add: chunk_tokens_def)

















end
